theory Spec2Isabelle
  imports Complex_Main
begin

section \<open>The Airbnb price predictor form (app.py)\<close>

text \<open>
  app.py is a Streamlit script: every user interaction re-runs it from top to bottom
  against the session state that survived the previous run. The embedding follows the
  script line by line. Python floats are only stored, copied and compared by the script
  (no arithmetic is done on them), so they are embedded as \<open>real\<close> numbers, a decimal
  literal standing for the float it denotes. Exceptions are values of \<open>error\<close>; a
  function that can raise returns \<open>error + 'a\<close>.
\<close>

subsection \<open>Values, errors and dictionaries\<close>

datatype error = KeyError | IndexError | ValueError | AttributeError | LibraryError string

text \<open>A cell of a data frame: the script puts Python ints and floats into it; a column
  that the row dictionary lacks is filled with NaN by pandas.\<close>

datatype val = PyInt int | PyFloat real | NaN

text \<open>A Python dict keeps insertion order: an association list. \<open>keys\<close> is
  \<open>list(d.keys())\<close>, \<open>getitem\<close> is \<open>d[k]\<close>, which raises KeyError on a missing key.\<close>

definition keys :: "('k \<times> 'v) list \<Rightarrow> 'k list" where
  "keys d = map fst d"

definition getitem :: "('k \<times> 'v) list \<Rightarrow> 'k \<Rightarrow> error + 'v" where
  "getitem d k = (case map_of d k of None \<Rightarrow> Inl KeyError | Some v \<Rightarrow> Inr v)"

subsection \<open>Static reference table (lines 9-25)\<close>

definition city_coords :: "(string \<times> real \<times> real) list" where
  "city_coords =
    [(''Paris'', (48.8566, 2.3522)),
     (''Rome'', (41.9028, 12.4964)),
     (''Amsterdam'', (52.3676, 4.9041)),
     (''Berlin'', (52.5200, 13.4050)),
     (''Prague'', (50.0755, 14.4378)),
     (''Barcelona'', (41.3851, 2.1734)),
     (''Budapest'', (47.4979, 19.0402)),
     (''Vienna'', (48.2082, 16.3738)),
     (''Athens'', (37.9838, 23.7275)),
     (''Istanbul'', (41.0082, 28.9784)),
     (''Dublin'', (53.3498, -6.2603)),
     (''Oslo'', (59.9139, 10.7522)),
     (''Stockholm'', (59.3293, 18.0686)),
     (''Copenhagen'', (55.6761, 12.5683)),
     (''Brussels'', (50.8503, 4.3517))]"

subsection \<open>Session state and widgets\<close>

text \<open>
  \<open>st.session_state\<close>, one field per key the script uses; \<open>None\<close> is a key that is
  not in the session state. Every widget of the sidebar has a key, so its current value
  lives in the session state under that key; \<open>last_city\<close> is written by the script only.
\<close>

record session_state =
  city_input :: "string option"
  latitude_input :: "real option"
  longitude_input :: "real option"
  last_city :: "string option"
  room_type_input :: "string option"
  min_nights_input :: "int option"
  num_reviews_input :: "int option"
  reviews_per_month_input :: "real option"
  host_listings_count_input :: "int option"
  availability_input :: "int option"
  reviews_ltm_input :: "int option"

text \<open>A keyed widget returns the value held under its key, and its default on the
  first run, when the key is not there yet.\<close>

definition widget_value :: "'a option \<Rightarrow> 'a \<Rightarrow> 'a" where
  "widget_value held dflt = (case held of Some v \<Rightarrow> v | None \<Rightarrow> dflt)"

text \<open>The first option of a select box is its default (\<open>index=0\<close>).\<close>

definition selectbox :: "string list \<Rightarrow> string option \<Rightarrow> error + string" where
  "selectbox options held =
     (case held of
        Some v \<Rightarrow> Inr v
      | None \<Rightarrow> (case options of [] \<Rightarrow> Inl IndexError | x # _ \<Rightarrow> Inr x))"

subsection \<open>Reactive default rule (lines 48-57)\<close>

text \<open>
  \<^verbatim>\<open>
  if ("latitude_input" not in st.session_state
      or "longitude_input" not in st.session_state
      or st.session_state.get("last_city", None) != city):
      default_lat, default_lon = city_coords[city]
      st.session_state["latitude_input"] = default_lat
      st.session_state["longitude_input"] = default_lon
      st.session_state["last_city"] = city
  \<close>
\<close>

definition needs_update :: "string \<Rightarrow> session_state \<Rightarrow> bool" where
  "needs_update city ss \<longleftrightarrow>
     latitude_input ss = None \<or> longitude_input ss = None \<or> last_city ss \<noteq> Some city"

definition auto_update :: "string \<Rightarrow> session_state \<Rightarrow> error + session_state" where
  "auto_update city ss =
     (if needs_update city ss then
        (case getitem city_coords city of
           Inl e \<Rightarrow> Inl e
         | Inr (default_lat, default_lon) \<Rightarrow>
             Inr (ss\<lparr>latitude_input := Some default_lat,
                     longitude_input := Some default_lon,
                     last_city := Some city\<rparr>))
      else Inr ss)"

subsection \<open>The sidebar (lines 42-108)\<close>

record form =
  city :: string
  latitude :: real
  longitude :: real
  room_type :: string
  minimum_nights :: int
  number_of_reviews :: int
  reviews_per_month :: real
  calculated_host_listings_count :: int
  availability_365 :: int
  number_of_reviews_ltm :: int

text \<open>\<open>st.session_state["latitude_input"]\<close>: a subscript, KeyError when the key is
  missing.\<close>

definition session_get :: "'a option \<Rightarrow> error + 'a" where
  "session_get held = (case held of None \<Rightarrow> Inl KeyError | Some v \<Rightarrow> Inr v)"

text \<open>The city select box and the reactive rule, then the two coordinate inputs, which
  show the value the session state holds under their keys.\<close>

definition coordinates ::
  "session_state \<Rightarrow> error + (session_state \<times> string \<times> real \<times> real)" where
  "coordinates ss0 =
     (case selectbox (keys city_coords) (city_input ss0) of
        Inl e \<Rightarrow> Inl e
      | Inr c \<Rightarrow>
         (case auto_update c (ss0\<lparr>city_input := Some c\<rparr>) of
            Inl e \<Rightarrow> Inl e
          | Inr ss1 \<Rightarrow>
             (case session_get (latitude_input ss1) of
                Inl e \<Rightarrow> Inl e
              | Inr lat \<Rightarrow>
                 (case session_get (longitude_input ss1) of
                    Inl e \<Rightarrow> Inl e
                  | Inr lon \<Rightarrow> Inr (ss1, c, lat, lon)))))"

definition sidebar :: "session_state \<Rightarrow> error + (session_state \<times> form)" where
  "sidebar ss0 =
     (case coordinates ss0 of
        Inl e \<Rightarrow> Inl e
      | Inr (ss1, c, lat, lon) \<Rightarrow>
         (case selectbox [''Entire home/apt'', ''Private room'', ''Shared room'']
                 (room_type_input ss1) of
            Inl e \<Rightarrow> Inl e
          | Inr rt \<Rightarrow>
             (let mn = widget_value (min_nights_input ss1) 1;
                  nr = widget_value (num_reviews_input ss1) 50;
                  rpm = widget_value (reviews_per_month_input ss1) 0.0;
                  hl = widget_value (host_listings_count_input ss1) 1;
                  av = widget_value (availability_input ss1) 200;
                  ltm = widget_value (reviews_ltm_input ss1) 0
              in Inr (ss1\<lparr>room_type_input := Some rt,
                           min_nights_input := Some mn,
                           num_reviews_input := Some nr,
                           reviews_per_month_input := Some rpm,
                           host_listings_count_input := Some hl,
                           availability_input := Some av,
                           reviews_ltm_input := Some ltm\<rparr>,
                      \<lparr>city = c, latitude = lat, longitude = lon, room_type = rt,
                       minimum_nights = mn, number_of_reviews = nr,
                       reviews_per_month = rpm, calculated_host_listings_count = hl,
                       availability_365 = av, number_of_reviews_ltm = ltm\<rparr>))))"

text \<open>What the user does between two runs: a widget of the sidebar gets a new value,
  which Streamlit stores under the widget's key before it re-runs the script.\<close>

datatype event = Select_city string | Edit_latitude real | Edit_longitude real | Rerun

fun user :: "event \<Rightarrow> session_state \<Rightarrow> session_state" where
  "user (Select_city c) ss = ss\<lparr>city_input := Some c\<rparr>"
| "user (Edit_latitude x) ss = ss\<lparr>latitude_input := Some x\<rparr>"
| "user (Edit_longitude x) ss = ss\<lparr>longitude_input := Some x\<rparr>"
| "user Rerun ss = ss"

text \<open>The session state after the event and the run of the sidebar it triggers (the
  rest of the script does not write to the session state); a run that raises is
  \<open>Inl\<close>.\<close>

definition rerun :: "event \<Rightarrow> session_state \<Rightarrow> error + session_state" where
  "rerun ev ss = map_sum id fst (sidebar (user ev ss))"

fun run_trace :: "event list \<Rightarrow> session_state \<Rightarrow> error + session_state" where
  "run_trace [] ss = Inr ss"
| "run_trace (ev # evs) ss =
     (case rerun ev ss of Inl e \<Rightarrow> Inl e | Inr ss' \<Rightarrow> run_trace evs ss')"

text \<open>The session state of a fresh session: no key is set.\<close>

definition fresh :: session_state where
  "fresh = \<lparr>city_input = None, latitude_input = None, longitude_input = None,
            last_city = None, room_type_input = None, min_nights_input = None,
            num_reviews_input = None, reviews_per_month_input = None,
            host_listings_count_input = None, availability_input = None,
            reviews_ltm_input = None\<rparr>"

subsection \<open>Encoding maps and the input row (lines 110-134)\<close>

definition room_type_map :: "(string \<times> int) list" where
  "room_type_map = [(''Entire home/apt'', 0), (''Private room'', 1), (''Shared room'', 2)]"

text \<open>\<^verbatim>\<open>city_map = {c: i for i, c in enumerate(list(city_coords.keys()))}\<close>\<close>

definition city_map :: "(string \<times> int) list" where
  "city_map = map (\<lambda>(i, c). (c, int i)) (enumerate 0 (keys city_coords))"

definition input_dict :: "form \<Rightarrow> error + (string \<times> val) list" where
  "input_dict f =
     (case getitem room_type_map (room_type f) of
        Inl e \<Rightarrow> Inl e
      | Inr rt \<Rightarrow>
         (case getitem city_map (city f) of
            Inl e \<Rightarrow> Inl e
          | Inr ci \<Rightarrow>
             Inr [(''latitude'', PyFloat (latitude f)),
                  (''longitude'', PyFloat (longitude f)),
                  (''room_type'', PyInt rt),
                  (''minimum_nights'', PyInt (minimum_nights f)),
                  (''number_of_reviews'', PyInt (number_of_reviews f)),
                  (''reviews_per_month'', PyFloat (reviews_per_month f)),
                  (''calculated_host_listings_count'', PyInt (calculated_host_listings_count f)),
                  (''availability_365'', PyInt (availability_365 f)),
                  (''number_of_reviews_ltm'', PyInt (number_of_reviews_ltm f)),
                  (''city'', PyInt ci)]))"

definition columns_order :: "string list" where
  "columns_order =
     [''latitude'', ''longitude'', ''room_type'', ''minimum_nights'', ''number_of_reviews'',
      ''reviews_per_month'', ''calculated_host_listings_count'', ''availability_365'',
      ''number_of_reviews_ltm'', ''city'']"

text \<open>\<open>pd.DataFrame([row], columns=cols)\<close>: one row, the columns in the order of
  \<open>cols\<close>, NaN where the row has no such key.\<close>

definition DataFrame :: "(string \<times> val) list \<Rightarrow> string list \<Rightarrow> (string \<times> val) list" where
  "DataFrame row cols = map (\<lambda>c. (c, case map_of row c of Some v \<Rightarrow> v | None \<Rightarrow> NaN)) cols"

definition input_df :: "form \<Rightarrow> error + (string \<times> val) list" where
  "input_df f = (case input_dict f of Inl e \<Rightarrow> Inl e | Inr d \<Rightarrow> Inr (DataFrame d columns_order))"

subsection \<open>Libraries, model and scaler (lines 27-34 and 136-140)\<close>

text \<open>
  The two pickled objects are not part of the repository: they are parameters. A scaler
  has a \<open>transform\<close> method, a model has a \<open>predict\<close> method and the attribute
  \<open>feature_importances_\<close>; either method may raise.
\<close>

record feature_scaler =
  transform :: "(string \<times> val) list \<Rightarrow> error + real list"

record lgbm_model =
  predict :: "(string \<times> real) list \<Rightarrow> error + real list"
  feature_importances :: "real list"

datatype artifact = Model lgbm_model | Scaler feature_scaler | Other_object

text \<open>
  The two library functions whose result the script depends on are parameters as well:
  \<open>joblib.load\<close>, which may raise and may return any object (the script does not
  inspect it), and \<open>np.argsort\<close>, of which numpy documents only that it returns a
  permutation of the indices that sorts the values (its default sort is not stable).
\<close>

record libraries =
  joblib_load :: "string \<Rightarrow> error + artifact"
  np_argsort :: "real list \<Rightarrow> nat list"

text \<open>The body of \<open>load_model\<close> (lines 30-32).\<close>

definition load_model :: "libraries \<Rightarrow> error + (artifact \<times> artifact)" where
  "load_model lib =
     (case joblib_load lib ''lightgbm_airbnb_model.pkl'' of
        Inl e \<Rightarrow> Inl e
      | Inr model \<Rightarrow>
         (case joblib_load lib ''feature_scaler.pkl'' of
            Inl e \<Rightarrow> Inl e
          | Inr scaler \<Rightarrow> Inr (model, scaler)))"

text \<open>
  \<open>@st.cache_resource\<close> (line 28): the pair that \<open>load_model\<close> returned is kept for the
  life of the process and returned again without running the body; a call that raises
  caches nothing. The cache is state that outlives the run: \<open>None\<close> before the first
  successful load.
\<close>

definition cached_load_model ::
  "(artifact \<times> artifact) option \<Rightarrow> libraries \<Rightarrow>
     (artifact \<times> artifact) option \<times> (error + artifact \<times> artifact)" where
  "cached_load_model cache lib =
     (case cache of
        Some loaded \<Rightarrow> (cache, Inr loaded)
      | None \<Rightarrow>
         (case load_model lib of
            Inl e \<Rightarrow> (None, Inl e)
          | Inr loaded \<Rightarrow> (Some loaded, Inr loaded)))"

text \<open>An attribute that the object does not have raises AttributeError.\<close>

fun scaler_transform :: "artifact \<Rightarrow> (string \<times> val) list \<Rightarrow> error + real list" where
  "scaler_transform (Scaler s) df = transform s df"
| "scaler_transform _ df = Inl AttributeError"

fun model_predict :: "artifact \<Rightarrow> (string \<times> real) list \<Rightarrow> error + real list" where
  "model_predict (Model m) df = predict m df"
| "model_predict _ df = Inl AttributeError"

fun model_feature_importances :: "artifact \<Rightarrow> error + real list" where
  "model_feature_importances (Model m) = Inr (feature_importances m)"
| "model_feature_importances _ = Inl AttributeError"

text \<open>\<open>pd.DataFrame(X_scaled, columns=columns_order)\<close> raises ValueError when the
  scaled row has not one value per column name; the names are attached by position.\<close>

definition scaled_frame :: "real list \<Rightarrow> string list \<Rightarrow> error + (string \<times> real) list" where
  "scaled_frame X cols = (if length X = length cols then Inr (zip cols X) else Inl ValueError)"

text \<open>\<open>a[0]\<close>\<close>

definition first :: "'a list \<Rightarrow> error + 'a" where
  "first xs = (case xs of [] \<Rightarrow> Inl IndexError | x # _ \<Rightarrow> Inr x)"

definition predicted_price :: "artifact \<Rightarrow> artifact \<Rightarrow> (string \<times> val) list \<Rightarrow> error + real" where
  "predicted_price model scaler df =
     (case scaler_transform scaler df of
        Inl e \<Rightarrow> Inl e
      | Inr X_scaled \<Rightarrow>
         (case scaled_frame X_scaled columns_order of
            Inl e \<Rightarrow> Inl e
          | Inr X_scaled_df \<Rightarrow>
             (case model_predict model X_scaled_df of
                Inl e \<Rightarrow> Inl e
              | Inr ys \<Rightarrow> first ys)))"

subsection \<open>Top 5 feature importances (lines 145-154)\<close>

text \<open>\<^verbatim>\<open>top_idx = np.argsort(importances)[::-1][:5]\<close>, with \<open>np.argsort\<close> the
  parameter \<open>argsort\<close>.\<close>

definition top_idx :: "(real list \<Rightarrow> nat list) \<Rightarrow> real list \<Rightarrow> nat list" where
  "top_idx argsort importances = take 5 (rev (argsort importances))"

text \<open>\<open>a[idx]\<close> with an array of indices: IndexError when an index is out of bounds.\<close>

definition take_at :: "'a list \<Rightarrow> nat list \<Rightarrow> error + 'a list" where
  "take_at a idx =
     (if list_all (\<lambda>i. i < length a) idx then Inr (map (\<lambda>i. a ! i) idx) else Inl IndexError)"

definition fi_df ::
  "(real list \<Rightarrow> nat list) \<Rightarrow> string list \<Rightarrow> real list \<Rightarrow> error + (string \<times> real) list" where
  "fi_df argsort feat_names importances =
     (case take_at feat_names (top_idx argsort importances) of
        Inl e \<Rightarrow> Inl e
      | Inr names \<Rightarrow>
         (case take_at importances (top_idx argsort importances) of
            Inl e \<Rightarrow> Inl e
          | Inr weights \<Rightarrow> Inr (zip names weights)))"

definition importance_chart ::
  "(real list \<Rightarrow> nat list) \<Rightarrow> bool \<Rightarrow> artifact \<Rightarrow> string list \<Rightarrow>
     error + (string \<times> real) list option" where
  "importance_chart argsort checked model feat_names =
     (if checked then
        (case model_feature_importances model of
           Inl e \<Rightarrow> Inl e
         | Inr importances \<Rightarrow>
            (case fi_df argsort feat_names importances of
               Inl e \<Rightarrow> Inl e
             | Inr chart \<Rightarrow> Inr (Some chart)))
      else Inr None)"

text \<open>
  What numpy documents of \<open>argsort\<close>, whatever the sorting algorithm: the result is a
  permutation of the indices that puts the values in ascending order.
\<close>

definition sorts :: "'a::linorder list \<Rightarrow> nat list \<Rightarrow> bool" where
  "sorts a p \<longleftrightarrow>
     distinct p \<and> set p = {0..<length a} \<and> sorted (map (\<lambda>i. a ! i) p)"

text \<open>
  Orders on the indices of a weight array. \<open>top_k earlier k n idx\<close> says that \<open>idx\<close>
  lists the first \<open>k\<close> of the indices below \<open>n\<close> in the order \<open>earlier\<close>: it is
  ordered by \<open>earlier\<close>, and every index it leaves out comes after all of its own.
  \<open>by_weight a\<close> orders by descending weight and says nothing of equal weights;
  \<open>ranks_before tie a\<close> orders by descending weight and lets \<open>tie\<close> decide between
  equal weights.
\<close>

definition by_weight :: "'a::linorder list \<Rightarrow> nat \<Rightarrow> nat \<Rightarrow> bool" where
  "by_weight a i j \<longleftrightarrow> a ! j \<le> a ! i"

definition ranks_before :: "(nat \<Rightarrow> nat \<Rightarrow> bool) \<Rightarrow> 'a::linorder list \<Rightarrow> nat \<Rightarrow> nat \<Rightarrow> bool" where
  "ranks_before tie a i j \<longleftrightarrow> a ! j < a ! i \<or> (a ! i = a ! j \<and> tie i j)"

definition top_k :: "(nat \<Rightarrow> nat \<Rightarrow> bool) \<Rightarrow> nat \<Rightarrow> nat \<Rightarrow> nat list \<Rightarrow> bool" where
  "top_k earlier k n idx \<longleftrightarrow>
     length idx = min k n \<and> distinct idx \<and> list_all (\<lambda>i. i < n) idx \<and>
     sorted_wrt earlier idx \<and>
     list_all (\<lambda>j. j \<in> set idx \<or> list_all (\<lambda>i. earlier i j) idx) [0..<n]"

subsection \<open>One run of the script\<close>

record page =
  features :: "(string \<times> val) list"
  price :: real
  chart :: "(string \<times> real) list option"
  map_location :: "real \<times> real"
  marker :: "real \<times> real"

text \<open>
  The script below line 34, with the loaded pair: \<open>checked\<close> is the state of the check
  box, \<open>ss\<close> the session state at the start of the run. There is no exception handler
  in the script: the first call that raises ends the run.
\<close>

definition script ::
  "libraries \<Rightarrow> artifact \<times> artifact \<Rightarrow> bool \<Rightarrow> session_state \<Rightarrow>
     error + (session_state \<times> page)" where
  "script lib loaded checked ss =
     (case loaded of
        (model, scaler) \<Rightarrow>
         (case sidebar ss of
            Inl e \<Rightarrow> Inl e
          | Inr (ss', f) \<Rightarrow>
             (case input_df f of
                Inl e \<Rightarrow> Inl e
              | Inr df \<Rightarrow>
                 (case predicted_price model scaler df of
                    Inl e \<Rightarrow> Inl e
                  | Inr p \<Rightarrow>
                     (case importance_chart (np_argsort lib) checked model (map fst df) of
                        Inl e \<Rightarrow> Inl e
                      | Inr ch \<Rightarrow>
                         Inr (ss', \<lparr>features = df, price = p, chart = ch,
                                    map_location = (latitude f, longitude f),
                                    marker = (latitude f, longitude f)\<rparr>))))))"

text \<open>
  One run of the whole script: the cached load of line 34, then the rest. The first
  component is the cache after the run, the second what the run shows, or the error
  that ended it.
\<close>

definition render ::
  "libraries \<Rightarrow> (artifact \<times> artifact) option \<Rightarrow> bool \<Rightarrow> session_state \<Rightarrow>
     (artifact \<times> artifact) option \<times> (error + session_state \<times> page)" where
  "render lib cache checked ss =
     (let (cache', r) = cached_load_model cache lib
      in (cache', case r of Inl e \<Rightarrow> Inl e | Inr loaded \<Rightarrow> script lib loaded checked ss))"

section \<open>The reactive default rule\<close>

subsection \<open>Lookups in the city table\<close>

lemma distinct_city_keys: "distinct (map fst city_coords)"
  by (simp add: city_coords_def)

lemma getitem_entry:
  "distinct (map fst d) \<Longrightarrow> (k, v) \<in> set d \<Longrightarrow> getitem d k = Inr v"
  by (simp add: getitem_def)

lemma getitem_city_coords:
  "(c, lat, lon) \<in> set city_coords \<Longrightarrow> getitem city_coords c = Inr (lat, lon)"
  by (rule getitem_entry [OF distinct_city_keys])

subsection \<open>The two branches of the rule\<close>

lemma auto_update_taken:
  "(c, lat, lon) \<in> set city_coords \<Longrightarrow> needs_update c ss \<Longrightarrow>
   auto_update c ss =
     Inr (ss\<lparr>latitude_input := Some lat, longitude_input := Some lon, last_city := Some c\<rparr>)"
  by (simp add: auto_update_def getitem_city_coords)

lemma auto_update_skipped:
  "\<not> needs_update c ss \<Longrightarrow> auto_update c ss = Inr ss"
  by (simp add: auto_update_def)

lemma needs_update_city_input:
  "needs_update c (ss\<lparr>city_input := x\<rparr>) = needs_update c ss"
  by (simp add: needs_update_def)

lemma coordinates_taken:
  assumes "(c, lat, lon) \<in> set city_coords" and "needs_update c ss"
    and "selectbox (keys city_coords) (city_input ss) = Inr c"
  shows "coordinates ss =
     Inr (ss\<lparr>city_input := Some c, latitude_input := Some lat, longitude_input := Some lon,
             last_city := Some c\<rparr>, c, lat, lon)"
proof -
  have "needs_update c (ss\<lparr>city_input := Some c\<rparr>)"
    using assms(2) by (simp add: needs_update_city_input)
  from auto_update_taken [OF assms(1) this] assms(3) show ?thesis
    by (simp add: coordinates_def session_get_def)
qed

lemma coordinates_skipped:
  assumes "\<not> needs_update c ss"
    and "selectbox (keys city_coords) (city_input ss) = Inr c"
  shows "\<exists>lat lon. latitude_input ss = Some lat \<and> longitude_input ss = Some lon \<and>
     coordinates ss = Inr (ss\<lparr>city_input := Some c\<rparr>, c, lat, lon)"
proof -
  have "\<not> needs_update c (ss\<lparr>city_input := Some c\<rparr>)"
    using assms(1) by (simp add: needs_update_city_input)
  from auto_update_skipped [OF this] assms show ?thesis
    by (auto simp add: coordinates_def session_get_def needs_update_def)
qed

text \<open>The widgets below the coordinate inputs leave the four keys of the rule alone.\<close>

lemma sidebar_of_coordinates:
  assumes "coordinates ss = Inr (ss1, c, lat, lon)"
  shows "\<exists>ss' f. sidebar ss = Inr (ss', f) \<and>
     city_input ss' = city_input ss1 \<and> last_city ss' = last_city ss1 \<and>
     latitude_input ss' = latitude_input ss1 \<and> longitude_input ss' = longitude_input ss1 \<and>
     city f = c \<and> latitude f = lat \<and> longitude f = lon"
  using assms by (simp add: sidebar_def selectbox_def Let_def split: option.splits)

lemma sidebar_taken:
  assumes "(c, lat, lon) \<in> set city_coords" and "needs_update c ss"
    and "selectbox (keys city_coords) (city_input ss) = Inr c"
  shows "\<exists>ss' f. sidebar ss = Inr (ss', f) \<and>
     city_input ss' = Some c \<and> last_city ss' = Some c \<and>
     latitude_input ss' = Some lat \<and> longitude_input ss' = Some lon \<and>
     city f = c \<and> latitude f = lat \<and> longitude f = lon"
  using sidebar_of_coordinates [OF coordinates_taken [OF assms]] by simp

lemma sidebar_skipped:
  assumes "\<not> needs_update c ss"
    and "selectbox (keys city_coords) (city_input ss) = Inr c"
  shows "\<exists>ss' f. sidebar ss = Inr (ss', f) \<and>
     city_input ss' = Some c \<and> last_city ss' = Some c \<and>
     latitude_input ss' = latitude_input ss \<and> longitude_input ss' = longitude_input ss \<and>
     city f = c \<and> latitude_input ss = Some (latitude f) \<and>
     longitude_input ss = Some (longitude f)"
proof -
  from coordinates_skipped [OF assms] obtain lat lon where
    a: "latitude_input ss = Some lat" "longitude_input ss = Some lon"
    and b: "coordinates ss = Inr (ss\<lparr>city_input := Some c\<rparr>, c, lat, lon)" by blast
  from assms(1) have "last_city ss = Some c" by (simp add: needs_update_def)
  with sidebar_of_coordinates [OF b] a show ?thesis by auto
qed

subsection \<open>What a run leaves in the session state\<close>

lemma auto_update_invariant:
  "auto_update c ss = Inr ss' \<Longrightarrow>
     last_city ss' = Some c \<and> latitude_input ss' \<noteq> None \<and> longitude_input ss' \<noteq> None"
  by (auto simp: auto_update_def needs_update_def split: if_splits sum.splits)

lemma coordinates_invariant:
  "coordinates ss = Inr (ss1, c, lat, lon) \<Longrightarrow>
     city_input ss1 = Some c \<and> last_city ss1 = Some c \<and>
     latitude_input ss1 = Some lat \<and> longitude_input ss1 = Some lon"
  by (auto simp: coordinates_def auto_update_def needs_update_def session_get_def
      split: if_splits sum.splits option.splits)

lemma sidebar_invariant:
  assumes "sidebar ss = Inr (ss', f)"
  shows "city_input ss' = Some (city f) \<and> last_city ss' = Some (city f) \<and>
     latitude_input ss' = Some (latitude f) \<and> longitude_input ss' = Some (longitude f)"
proof -
  from assms obtain ss1 c lat lon where c: "coordinates ss = Inr (ss1, c, lat, lon)"
    by (auto simp: sidebar_def split: sum.splits)
  from sidebar_of_coordinates [OF c] coordinates_invariant [OF c] assms show ?thesis
    by auto
qed

subsection \<open>Single user events\<close>

lemma rerun_select_other:
  assumes "(c, lat, lon) \<in> set city_coords" and "last_city ss \<noteq> Some c"
  shows "\<exists>ss' f. sidebar (user (Select_city c) ss) = Inr (ss', f) \<and>
     rerun (Select_city c) ss = Inr ss' \<and> city_input ss' = Some c \<and> last_city ss' = Some c \<and>
     latitude_input ss' = Some lat \<and> longitude_input ss' = Some lon \<and>
     latitude f = lat \<and> longitude f = lon"
proof -
  have n: "needs_update c (user (Select_city c) ss)"
    using assms(2) by (simp add: needs_update_def)
  have s: "selectbox (keys city_coords) (city_input (user (Select_city c) ss)) = Inr c"
    by (simp add: selectbox_def)
  from sidebar_taken [OF assms(1) n s] show ?thesis
    by (auto simp: rerun_def)
qed

lemma rerun_select_any:
  assumes "c \<in> set (keys city_coords)"
  shows "\<exists>ss'. rerun (Select_city c) ss = Inr ss' \<and> city_input ss' = Some c \<and>
     last_city ss' = Some c \<and> latitude_input ss' \<noteq> None \<and> longitude_input ss' \<noteq> None"
proof -
  from assms obtain lat lon where e: "(c, lat, lon) \<in> set city_coords"
    by (auto simp: keys_def)
  have s: "selectbox (keys city_coords) (city_input (user (Select_city c) ss)) = Inr c"
    by (simp add: selectbox_def)
  show ?thesis
  proof (cases "needs_update c (user (Select_city c) ss)")
    case True
    from sidebar_taken [OF e True s] show ?thesis by (auto simp: rerun_def)
  next
    case False
    then have "latitude_input ss \<noteq> None" "longitude_input ss \<noteq> None"
      by (simp_all add: needs_update_def)
    with sidebar_skipped [OF False s] show ?thesis by (auto simp: rerun_def)
  qed
qed

lemma rerun_edit_latitude:
  assumes "city_input ss = Some c" and "last_city ss = Some c" and "longitude_input ss \<noteq> None"
  shows "\<exists>ss'. rerun (Edit_latitude L) ss = Inr ss' \<and> city_input ss' = Some c \<and>
     last_city ss' = Some c \<and> latitude_input ss' = Some L \<and>
     longitude_input ss' = longitude_input ss"
proof -
  have n: "\<not> needs_update c (user (Edit_latitude L) ss)"
    using assms by (simp add: needs_update_def)
  have s: "selectbox (keys city_coords) (city_input (user (Edit_latitude L) ss)) = Inr c"
    using assms by (simp add: selectbox_def)
  from sidebar_skipped [OF n s] show ?thesis by (auto simp: rerun_def)
qed

subsection \<open>The claims about the rule\<close>

text \<open>
  C1. Let \<open>(c, lat, lon)\<close> be an entry of the city table and \<open>c\<close> the city selected in
  this run. If \<open>last_city\<close> is unset, or the latitude is unset, or the longitude is
  unset, or \<open>last_city\<close> is not \<open>c\<close>, then the rule sets the latitude to \<open>lat\<close>, the
  longitude to \<open>lon\<close> and \<open>last_city\<close> to \<open>c\<close>, and changes nothing else; the
  coordinate inputs of that run then return \<open>lat\<close> and \<open>lon\<close>.
\<close>

theorem city_change_sets_defaults:
  assumes "(c, lat, lon) \<in> set city_coords"
    and "last_city ss = None \<or> latitude_input ss = None \<or> longitude_input ss = None
         \<or> last_city ss \<noteq> Some c"
  shows "auto_update c ss =
           Inr (ss\<lparr>latitude_input := Some lat, longitude_input := Some lon,
                   last_city := Some c\<rparr>) \<and>
         (selectbox (keys city_coords) (city_input ss) = Inr c \<longrightarrow>
            coordinates ss =
              Inr (ss\<lparr>city_input := Some c, latitude_input := Some lat,
                      longitude_input := Some lon, last_city := Some c\<rparr>, c, lat, lon))"
proof -
  from assms(2) have nu: "needs_update c ss"
    by (auto simp: needs_update_def)
  show ?thesis
    using auto_update_taken [OF assms(1) nu] coordinates_taken [OF assms(1) nu] by simp
qed

theorem city_change_sets_defaults_witness:
  "auto_update ''Rome'' fresh =
     Inr (fresh\<lparr>latitude_input := Some 41.9028, longitude_input := Some 12.4964,
                last_city := Some ''Rome''\<rparr>)
   \<and> coordinates (fresh\<lparr>city_input := Some ''Rome''\<rparr>) =
     Inr (fresh\<lparr>city_input := Some ''Rome'', latitude_input := Some 41.9028,
                longitude_input := Some 12.4964, last_city := Some ''Rome''\<rparr>,
          ''Rome'', 41.9028, 12.4964)"
  using city_change_sets_defaults [of "''Rome''" "41.9028" "12.4964" fresh]
    city_change_sets_defaults [of "''Rome''" "41.9028" "12.4964"
      "fresh\<lparr>city_input := Some ''Rome''\<rparr>"]
  by (simp add: city_coords_def fresh_def selectbox_def)

text \<open>
  C2. In a session state where \<open>last_city\<close> is the selected city \<open>c\<close> and latitude and
  longitude are set, the rule changes nothing, and the run returns the held latitude
  and longitude and leaves them in the session state. In particular, for a city \<open>c\<close> of
  the table and any value \<open>L\<close>: after selecting \<open>c\<close> and editing the latitude to \<open>L\<close>,
  a further run with the same city returns the latitude \<open>L\<close> and keeps it in the state.
\<close>

theorem manual_edit_preserved:
  "(last_city ss = Some c \<and> latitude_input ss = Some lat \<and> longitude_input ss = Some lon \<longrightarrow>
      auto_update c ss = Inr ss \<and>
      (selectbox (keys city_coords) (city_input ss) = Inr c \<longrightarrow>
        (\<exists>ss' f. sidebar ss = Inr (ss', f) \<and> latitude_input ss' = Some lat \<and>
           longitude_input ss' = Some lon \<and> latitude f = lat \<and> longitude f = lon)))
   \<and> (c \<in> set (keys city_coords) \<longrightarrow>
      (\<exists>ss1 ss2 f. run_trace [Select_city c, Edit_latitude L] start = Inr ss1 \<and>
         city_input ss1 = Some c \<and> latitude_input ss1 = Some L \<and>
         sidebar ss1 = Inr (ss2, f) \<and> latitude_input ss2 = Some L \<and> latitude f = L \<and>
         run_trace [Select_city c, Edit_latitude L, Rerun] start = Inr ss2))"
proof (intro conjI impI)
  assume a: "last_city ss = Some c \<and> latitude_input ss = Some lat \<and> longitude_input ss = Some lon"
  then have n: "\<not> needs_update c ss" by (simp add: needs_update_def)
  then show "auto_update c ss = Inr ss" by (rule auto_update_skipped)
  assume "selectbox (keys city_coords) (city_input ss) = Inr c"
  from sidebar_skipped [OF n this] a
  show "\<exists>ss' f. sidebar ss = Inr (ss', f) \<and> latitude_input ss' = Some lat \<and>
           longitude_input ss' = Some lon \<and> latitude f = lat \<and> longitude f = lon"
    by auto
next
  assume "c \<in> set (keys city_coords)"
  from rerun_select_any [OF this, of start] obtain t1 where
    t1: "rerun (Select_city c) start = Inr t1" "city_input t1 = Some c"
      "last_city t1 = Some c" "longitude_input t1 \<noteq> None"
    by blast
  from rerun_edit_latitude [OF t1(2,3,4), of L] obtain t2 where
    t2: "rerun (Edit_latitude L) t1 = Inr t2" "city_input t2 = Some c" "last_city t2 = Some c"
      "latitude_input t2 = Some L" "longitude_input t2 = longitude_input t1"
    by blast
  have sel3: "selectbox (keys city_coords) (city_input t2) = Inr c"
    using t2 by (simp add: selectbox_def)
  have n3: "\<not> needs_update c t2" using t1 t2 by (simp add: needs_update_def)
  from sidebar_skipped [OF n3 sel3] t2 obtain t3 f3 where
    t3: "sidebar t2 = Inr (t3, f3)" "latitude_input t3 = Some L" "latitude f3 = L"
    by auto
  have r2: "run_trace [Select_city c, Edit_latitude L] start = Inr t2"
    using t1 t2 by simp
  have r3: "run_trace [Select_city c, Edit_latitude L, Rerun] start = Inr t3"
    using t1 t2 t3 by (simp add: rerun_def)
  from r2 r3 t2 t3
  show "\<exists>ss1 ss2 f. run_trace [Select_city c, Edit_latitude L] start = Inr ss1 \<and>
         city_input ss1 = Some c \<and> latitude_input ss1 = Some L \<and>
         sidebar ss1 = Inr (ss2, f) \<and> latitude_input ss2 = Some L \<and> latitude f = L \<and>
         run_trace [Select_city c, Edit_latitude L, Rerun] start = Inr ss2"
    by blast
qed

theorem manual_edit_preserved_witness:
  "auto_update ''Rome''
     (fresh\<lparr>city_input := Some ''Rome'', latitude_input := Some 10,
         longitude_input := Some 20, last_city := Some ''Rome''\<rparr>) =
   Inr (fresh\<lparr>city_input := Some ''Rome'', latitude_input := Some 10,
         longitude_input := Some 20, last_city := Some ''Rome''\<rparr>)
   \<and> (\<exists>ss1 ss2 f. run_trace [Select_city ''Rome'', Edit_latitude 10] fresh = Inr ss1 \<and>
         city_input ss1 = Some ''Rome'' \<and> latitude_input ss1 = Some 10 \<and>
         sidebar ss1 = Inr (ss2, f) \<and> latitude_input ss2 = Some 10 \<and> latitude f = 10 \<and>
         run_trace [Select_city ''Rome'', Edit_latitude 10, Rerun] fresh = Inr ss2)"
  using manual_edit_preserved [where c = "''Rome''" and lat = 10 and lon = 20 and L = 10
      and start = fresh
      and ss = "fresh\<lparr>city_input := Some ''Rome'', latitude_input := Some 10,
         longitude_input := Some 20, last_city := Some ''Rome''\<rparr>"]
  by (simp add: city_coords_def keys_def fresh_def)

text \<open>
  C6. For two different cities \<open>A\<close> and \<open>B\<close> of the table, the trace: select \<open>A\<close>,
  edit the latitude, select \<open>B\<close>, select \<open>A\<close> again (each followed by the run it
  triggers) ends with the latitude and longitude of \<open>A\<close>'s entry in the table, in the
  session state and in the values the coordinate inputs return: the edit is gone.
\<close>

theorem reset_on_return:
  assumes "(A, latA, lonA) \<in> set city_coords" and "B \<in> set (keys city_coords)" and "A \<noteq> B"
  shows "\<exists>ss3 ss4 f.
     run_trace [Select_city A, Edit_latitude L, Select_city B] start = Inr ss3 \<and>
     sidebar (user (Select_city A) ss3) = Inr (ss4, f) \<and>
     run_trace [Select_city A, Edit_latitude L, Select_city B, Select_city A] start = Inr ss4 \<and>
     latitude_input ss4 = Some latA \<and> longitude_input ss4 = Some lonA \<and>
     last_city ss4 = Some A \<and> latitude f = latA \<and> longitude f = lonA"
proof -
  have "A \<in> set (keys city_coords)"
    using assms(1) by (force simp: keys_def)
  from rerun_select_any [OF this, of start] obtain s1 where
    s1: "rerun (Select_city A) start = Inr s1" "city_input s1 = Some A" "last_city s1 = Some A"
      "longitude_input s1 \<noteq> None" by blast
  from rerun_edit_latitude [OF s1(2,3,4), of L] obtain s2 where
    s2: "rerun (Edit_latitude L) s1 = Inr s2" "last_city s2 = Some A" by blast
  from rerun_select_any [OF assms(2), of s2] obtain s3 where
    s3: "rerun (Select_city B) s2 = Inr s3" "last_city s3 = Some B" by blast
  from s3(2) assms(3) have "last_city s3 \<noteq> Some A" by simp
  from rerun_select_other [OF assms(1) this] obtain s4 f where
    s4: "sidebar (user (Select_city A) s3) = Inr (s4, f)" "rerun (Select_city A) s3 = Inr s4"
      "last_city s4 = Some A" "latitude_input s4 = Some latA" "longitude_input s4 = Some lonA"
      "latitude f = latA" "longitude f = lonA" by blast
  have r3: "run_trace [Select_city A, Edit_latitude L, Select_city B] start = Inr s3"
    using s1 s2 s3 by simp
  have r4: "run_trace [Select_city A, Edit_latitude L, Select_city B, Select_city A] start = Inr s4"
    using s1 s2 s3 s4 by simp
  from r3 r4 s4 show ?thesis by blast
qed

theorem reset_on_return_witness:
  "\<exists>ss3 ss4 f.
     run_trace [Select_city ''Rome'', Edit_latitude 10, Select_city ''Paris''] fresh = Inr ss3 \<and>
     sidebar (user (Select_city ''Rome'') ss3) = Inr (ss4, f) \<and>
     run_trace [Select_city ''Rome'', Edit_latitude 10, Select_city ''Paris'',
       Select_city ''Rome''] fresh = Inr ss4 \<and>
     latitude_input ss4 = Some 41.9028 \<and> longitude_input ss4 = Some 12.4964 \<and>
     last_city ss4 = Some ''Rome'' \<and> latitude f = 41.9028 \<and> longitude f = 12.4964"
  using reset_on_return [where A = "''Rome''" and B = "''Paris''" and latA = "41.9028"
      and lonA = "12.4964" and L = 10 and start = fresh]
  by (simp add: city_coords_def keys_def)

text \<open>
  C9. Whichever branch the rule takes, a run in which it returns leaves \<open>last_city\<close> equal
  to the selected city and latitude and longitude set, and for a city of the table it
  does return. After a run of the sidebar \<open>last_city\<close> and the key of the city select box
  hold the same city; so if, after one user event, \<open>last_city\<close> differs from the
  selected city at the start of the next run, that event was the selection of a
  different city. (In a fresh session \<open>last_city\<close> is unset: the first run.)
\<close>

theorem rule_establishes_invariant:
  "(auto_update c ss = Inr ss' \<longrightarrow>
      last_city ss' = Some c \<and> latitude_input ss' \<noteq> None \<and> longitude_input ss' \<noteq> None)
   \<and> (c \<in> set (keys city_coords) \<longrightarrow> (\<exists>ss'. auto_update c ss = Inr ss'))
   \<and> (sidebar ss = Inr (ss1, f) \<longrightarrow>
        city_input ss1 = Some (city f) \<and> last_city ss1 = Some (city f) \<and>
        latitude_input ss1 \<noteq> None \<and> longitude_input ss1 \<noteq> None \<and>
        (selectbox (keys city_coords) (city_input (user ev ss1)) = Inr c' \<and>
         last_city (user ev ss1) \<noteq> Some c' \<longrightarrow> ev = Select_city c' \<and> c' \<noteq> city f))
   \<and> last_city fresh = None"
proof (intro conjI impI)
  assume "auto_update c ss = Inr ss'"
  from auto_update_invariant [OF this]
  show "last_city ss' = Some c" "latitude_input ss' \<noteq> None" "longitude_input ss' \<noteq> None"
    by simp_all
next
  assume "c \<in> set (keys city_coords)"
  then obtain lat lon where e: "(c, lat, lon) \<in> set city_coords"
    by (auto simp: keys_def)
  show "\<exists>ss'. auto_update c ss = Inr ss'"
    using auto_update_taken [OF e] auto_update_skipped by (cases "needs_update c ss") auto
next
  assume a: "sidebar ss = Inr (ss1, f)"
  from sidebar_invariant [OF a]
  show "city_input ss1 = Some (city f)" "last_city ss1 = Some (city f)"
    "latitude_input ss1 \<noteq> None" "longitude_input ss1 \<noteq> None"
    by simp_all
  assume b: "selectbox (keys city_coords) (city_input (user ev ss1)) = Inr c' \<and>
         last_city (user ev ss1) \<noteq> Some c'"
  with sidebar_invariant [OF a]
  show "ev = Select_city c'" "c' \<noteq> city f"
    by (cases ev; auto simp: selectbox_def)+
next
  show "last_city fresh = None" by (simp add: fresh_def)
qed

text \<open>The rule in a fresh session with Rome selected; and the first run of a fresh
  session, which selects Paris, followed by the selection of Rome.\<close>

theorem rule_establishes_invariant_witness:
  "auto_update ''Rome'' fresh =
     Inr (fresh\<lparr>latitude_input := Some 41.9028, longitude_input := Some 12.4964,
                last_city := Some ''Rome''\<rparr>)
   \<and> last_city (fresh\<lparr>latitude_input := Some 41.9028, longitude_input := Some 12.4964,
                last_city := Some ''Rome''\<rparr>) = Some ''Rome''
   \<and> latitude_input (fresh\<lparr>latitude_input := Some 41.9028, longitude_input := Some 12.4964,
                last_city := Some ''Rome''\<rparr>) \<noteq> None
   \<and> longitude_input (fresh\<lparr>latitude_input := Some 41.9028, longitude_input := Some 12.4964,
                last_city := Some ''Rome''\<rparr>) \<noteq> None
   \<and> (\<exists>ss1 f. sidebar fresh = Inr (ss1, f) \<and> city f = ''Paris'' \<and>
         city_input ss1 = Some ''Paris'' \<and> last_city ss1 = Some ''Paris'' \<and>
         selectbox (keys city_coords) (city_input (user (Select_city ''Rome'') ss1)) =
           Inr ''Rome'' \<and>
         last_city (user (Select_city ''Rome'') ss1) \<noteq> Some ''Rome'')"
proof -
  have "\<exists>ss1 f. sidebar fresh = Inr (ss1, f) \<and> city f = ''Paris''"
    by (simp add: sidebar_def coordinates_def selectbox_def auto_update_def needs_update_def
        getitem_def session_get_def widget_value_def fresh_def keys_def city_coords_def)
  then obtain ss1 f where s: "sidebar fresh = Inr (ss1, f)" "city f = ''Paris''"
    by blast
  from rule_establishes_invariant [where ss = fresh and ?ss1.0 = ss1 and f = f] s
  have "city_input ss1 = Some ''Paris'' \<and> last_city ss1 = Some ''Paris''"
    by simp
  with s have "\<exists>ss1 f. sidebar fresh = Inr (ss1, f) \<and> city f = ''Paris'' \<and>
         city_input ss1 = Some ''Paris'' \<and> last_city ss1 = Some ''Paris'' \<and>
         selectbox (keys city_coords) (city_input (user (Select_city ''Rome'') ss1)) =
           Inr ''Rome'' \<and>
         last_city (user (Select_city ''Rome'') ss1) \<noteq> Some ''Rome''"
    by (auto simp: selectbox_def)
  then show ?thesis
    using rule_establishes_invariant [where c = "''Rome''" and ss = fresh
      and ss' = "fresh\<lparr>latitude_input := Some 41.9028, longitude_input := Some 12.4964,
                last_city := Some ''Rome''\<rparr>"]
    by (simp add: auto_update_def needs_update_def getitem_def city_coords_def fresh_def)
qed

section \<open>Feature encoding\<close>

lemma map_of_enumerate:
  "distinct ks \<Longrightarrow> i < length ks \<Longrightarrow>
   map_of (map (\<lambda>(i, c). (c, int i)) (enumerate n ks)) (ks ! i) = Some (int (n + i))"
proof (induction ks arbitrary: n i)
  case Nil
  then show ?case by simp
next
  case (Cons k ks)
  show ?case
  proof (cases i)
    case 0
    then show ?thesis by simp
  next
    case (Suc j)
    with Cons.prems have "j < length ks" "distinct ks" "ks ! j \<noteq> k"
      by auto
    with Cons.IH [of j "Suc n"] Suc show ?thesis by simp
  qed
qed

lemma getitem_city_map:
  "i < length (keys city_coords) \<Longrightarrow> getitem city_map (keys city_coords ! i) = Inr (int i)"
  using map_of_enumerate [of "keys city_coords" i 0] distinct_city_keys
  by (simp add: getitem_def city_map_def keys_def)

lemma getitem_room_type_map:
  "j < length (keys room_type_map) \<Longrightarrow>
   getitem room_type_map (keys room_type_map ! j) = Inr (int j)"
  by (auto simp: getitem_def room_type_map_def keys_def less_Suc_eq numeral_3_eq_3)

text \<open>
  C7. The encoding of the city at position \<open>i\<close> of the city list is \<open>i\<close> (counted from
  0), the encoding map has the keys of the city table, and the room type map has the
  three labels, Entire home/apt at 0, Private room at 1 and Shared room at 2.
\<close>

theorem encodings_are_positions:
  "(i < length (keys city_coords) \<longrightarrow>
      getitem city_map (keys city_coords ! i) = Inr (int i))
   \<and> keys city_map = keys city_coords
   \<and> keys room_type_map = [''Entire home/apt'', ''Private room'', ''Shared room'']
   \<and> getitem room_type_map ''Entire home/apt'' = Inr 0
   \<and> getitem room_type_map ''Private room'' = Inr 1
   \<and> getitem room_type_map ''Shared room'' = Inr 2"
proof (intro conjI impI)
  show "keys city_map = keys city_coords"
    by (simp add: city_map_def keys_def city_coords_def enumerate_eq_zip)
qed (simp_all add: getitem_city_map, simp_all add: getitem_def room_type_map_def keys_def)

theorem encodings_are_positions_witness:
  "keys city_coords ! 3 = ''Berlin'' \<and> getitem city_map ''Berlin'' = Inr 3"
  using encodings_are_positions [of 3] by (simp add: keys_def city_coords_def)

text \<open>
  C3. The input row is a function of the form alone (the same form gives the same row).
  For a city of the table, at position \<open>i\<close>, and a room type of the room type map, at
  position \<open>j\<close>, it holds, in this order: latitude, longitude, the room type's index,
  minimum nights, number of reviews, reviews per month, host listings count,
  availability, reviews of the last twelve months, the city's index; the column names
  are those of \<open>columns_order\<close>.
\<close>

theorem input_df_order:
  assumes "i < length (keys city_coords)" and "city f = keys city_coords ! i"
    and "j < length (keys room_type_map)" and "room_type f = keys room_type_map ! j"
  shows "input_df f =
     Inr [(''latitude'', PyFloat (latitude f)),
          (''longitude'', PyFloat (longitude f)),
          (''room_type'', PyInt (int j)),
          (''minimum_nights'', PyInt (minimum_nights f)),
          (''number_of_reviews'', PyInt (number_of_reviews f)),
          (''reviews_per_month'', PyFloat (reviews_per_month f)),
          (''calculated_host_listings_count'', PyInt (calculated_host_listings_count f)),
          (''availability_365'', PyInt (availability_365 f)),
          (''number_of_reviews_ltm'', PyInt (number_of_reviews_ltm f)),
          (''city'', PyInt (int i))]
    \<and> map_sum id (map fst) (input_df f) = Inr columns_order
    \<and> (f' = f \<longrightarrow> input_df f' = input_df f)"
  using getitem_city_map [OF assms(1)] getitem_room_type_map [OF assms(3)] assms(2,4)
  by (simp add: input_df_def input_dict_def DataFrame_def columns_order_def)

theorem input_df_order_witness:
  "input_df \<lparr>city = ''Rome'', latitude = 41.9, longitude = 12.5,
       room_type = ''Private room'', minimum_nights = 2, number_of_reviews = 7,
       reviews_per_month = 0.5, calculated_host_listings_count = 3,
       availability_365 = 100, number_of_reviews_ltm = 4\<rparr> =
     Inr [(''latitude'', PyFloat 41.9),
          (''longitude'', PyFloat 12.5),
          (''room_type'', PyInt 1),
          (''minimum_nights'', PyInt 2),
          (''number_of_reviews'', PyInt 7),
          (''reviews_per_month'', PyFloat 0.5),
          (''calculated_host_listings_count'', PyInt 3),
          (''availability_365'', PyInt 100),
          (''number_of_reviews_ltm'', PyInt 4),
          (''city'', PyInt 1)]"
  using input_df_order [where i = 1 and j = 1
      and f = "\<lparr>city = ''Rome'', latitude = 41.9, longitude = 12.5,
       room_type = ''Private room'', minimum_nights = 2, number_of_reviews = 7,
       reviews_per_month = 0.5, calculated_host_listings_count = 3,
       availability_365 = 100, number_of_reviews_ltm = 4\<rparr>"]
  by (simp add: keys_def city_coords_def room_type_map_def)

text \<open>
  C5. The form with city Paris, latitude 48.8566, longitude 2.3522, room type
  Entire home/apt, 1 minimum night, 50 reviews, 0.0 reviews per month, 1 host listing,
  availability 200 and 0 reviews in the last twelve months gives the feature values
  48.8566, 2.3522, 0, 1, 50, 0.0, 1, 200, 0, 0; Paris is the first city of the table
  and its index is 0.
\<close>

theorem paris_example:
  "map_sum id (map snd)
     (input_df \<lparr>city = ''Paris'', latitude = 48.8566, longitude = 2.3522,
        room_type = ''Entire home/apt'', minimum_nights = 1, number_of_reviews = 50,
        reviews_per_month = 0.0, calculated_host_listings_count = 1,
        availability_365 = 200, number_of_reviews_ltm = 0\<rparr>) =
     Inr [PyFloat 48.8566, PyFloat 2.3522, PyInt 0, PyInt 1, PyInt 50, PyFloat 0.0,
          PyInt 1, PyInt 200, PyInt 0, PyInt 0]
   \<and> keys city_coords ! 0 = ''Paris''
   \<and> getitem city_map ''Paris'' = Inr 0"
  by (simp add: input_df_def input_dict_def DataFrame_def columns_order_def getitem_def
      city_map_def room_type_map_def keys_def city_coords_def enumerate_eq_zip)

section \<open>The top 5 feature importances\<close>

text \<open>The first \<open>k\<close> entries of a list of all indices that is ordered by \<open>R\<close>.\<close>

lemma top_k_take:
  assumes L: "sorted_wrt R L" and d: "distinct L" and s: "set L = {0..<n}"
  shows "top_k R k n (take k L)"
proof -
  have split: "L = take k L @ drop k L" by simp
  have l: "length L = n"
    using distinct_card [OF d] s by simp
  have 1: "length (take k L) = min k n"
    using l by simp
  have 2: "distinct (take k L)"
    using d by simp
  have "set (take k L) \<subseteq> {0..<n}"
    using set_take_subset [of k L] s by simp
  then have 3: "list_all (\<lambda>i. i < n) (take k L)"
    by (auto simp: list_all_iff)
  have 4: "sorted_wrt R (take k L)"
    using L by (rule sorted_wrt_take)
  have "sorted_wrt R (take k L @ drop k L)" using L by simp
  then have later: "\<forall>i\<in>set (take k L). \<forall>j\<in>set (drop k L). R i j"
    unfolding sorted_wrt_append by blast
  have 5: "list_all (\<lambda>j. j \<in> set (take k L) \<or> list_all (\<lambda>i. R i j) (take k L)) [0..<n]"
    unfolding list_all_iff
  proof (intro ballI)
    fix j assume "j \<in> set [0..<n]"
    then have "j \<in> set L" by (simp add: s)
    then have "j \<in> set (take k L) \<or> j \<in> set (drop k L)"
      by (metis Un_iff set_append split)
    then show "j \<in> set (take k L) \<or> (\<forall>i\<in>set (take k L). R i j)"
      using later by auto
  qed
  from 1 2 3 4 5 show ?thesis by (simp add: top_k_def)
qed

lemma sorts_top_k:
  assumes "sorts a (argsort a)"
  shows "top_k (by_weight a) 5 (length a) (top_idx argsort a)"
  unfolding top_idx_def
proof (rule top_k_take)
  from assms have "sorted_wrt (\<lambda>i j. a ! i \<le> a ! j) (argsort a)"
    by (simp add: sorts_def sorted_map)
  then show "sorted_wrt (by_weight a) (rev (argsort a))"
    by (simp add: sorted_wrt_rev by_weight_def)
  from assms show "distinct (rev (argsort a))" "set (rev (argsort a)) = {0..<length a}"
    by (simp_all add: sorts_def)
qed

lemma take_at_ok:
  "list_all (\<lambda>i. i < length a) idx \<Longrightarrow> take_at a idx = Inr (map (\<lambda>i. a ! i) idx)"
  by (simp add: take_at_def)

lemma fi_df_aligned:
  assumes "sorts a (argsort a)" and "length a = length feat_names"
  shows "fi_df argsort feat_names a =
     Inr (map (\<lambda>i. (feat_names ! i, a ! i)) (top_idx argsort a))"
proof -
  from sorts_top_k [of a argsort] assms(1)
  have b: "list_all (\<lambda>i. i < length a) (top_idx argsort a)"
    by (simp add: top_k_def)
  with assms(2) have b': "list_all (\<lambda>i. i < length feat_names) (top_idx argsort a)" by simp
  show ?thesis
    by (simp add: fi_df_def take_at_ok [OF b] take_at_ok [OF b'] zip_map_map map_idI
       zip_same_conv_map)
qed

lemma fi_df_error: "fi_df argsort feat_names a = Inl e \<Longrightarrow> e = IndexError"
  by (auto simp: fi_df_def take_at_def split: sum.splits if_splits)

text \<open>
  C4, as the script has it. Whatever permutation \<open>np.argsort\<close> returns that puts the
  weights in ascending order, the indices shown are five of them (all, when there are
  fewer), in descending order of weight, and no weight that is left out is larger than
  one that is shown; nothing is fixed about the order or the choice among equal weights.
  When the weights are aligned to the feature names, each index is shown with its
  feature name and its raw weight.
\<close>

theorem top5_descending_any_sort:
  assumes "sorts a (argsort a)"
  shows "top_k (by_weight a) 5 (length a) (top_idx argsort a)
   \<and> (length a = length feat_names \<longrightarrow>
        fi_df argsort feat_names a =
          Inr (map (\<lambda>i. (feat_names ! i, a ! i)) (top_idx argsort a)))"
  using assms sorts_top_k [of a argsort] fi_df_aligned [of a argsort feat_names] by simp

text \<open>The weights 0.1, 0.5, 0.05, 0.2, 0.05, 0.3, 0, 0, 0, 0 and an unstable sort of
  them, which returns 6, 7, 9, 8, 2, 4, 0, 3, 5, 1.\<close>

theorem top5_descending_any_sort_witness:
  "sorts [0.1, 0.5, 0.05, 0.2, 0.05, 0.3, 0.0, 0.0, 0.0, 0.0 :: real]
     [6, 7, 9, 8, 2, 4, 0, 3, 5, 1]
   \<and> top_idx (\<lambda>a. [6, 7, 9, 8, 2, 4, 0, 3, 5, 1])
       [0.1, 0.5, 0.05, 0.2, 0.05, 0.3, 0.0, 0.0, 0.0, 0.0] = [1, 5, 3, 0, 4]
   \<and> top_k (by_weight [0.1, 0.5, 0.05, 0.2, 0.05, 0.3, 0.0, 0.0, 0.0, 0.0 :: real]) 5
       (length [0.1, 0.5, 0.05, 0.2, 0.05, 0.3, 0.0, 0.0, 0.0, 0.0 :: real])
       (top_idx (\<lambda>a. [6, 7, 9, 8, 2, 4, 0, 3, 5, 1])
          [0.1, 0.5, 0.05, 0.2, 0.05, 0.3, 0.0, 0.0, 0.0, 0.0])
   \<and> fi_df (\<lambda>a. [6, 7, 9, 8, 2, 4, 0, 3, 5, 1]) columns_order
       [0.1, 0.5, 0.05, 0.2, 0.05, 0.3, 0.0, 0.0, 0.0, 0.0] =
       Inr [(''longitude'', 0.5), (''reviews_per_month'', 0.3), (''minimum_nights'', 0.2),
            (''latitude'', 0.1), (''number_of_reviews'', 0.05)]"
proof -
  have v: "{0..<10} = {0, 1, 2, 3, 4, 5, 6, 7, 8, 9 :: nat}"
    by (auto simp: atLeastLessThan_def)
  have s: "sorts [0.1, 0.5, 0.05, 0.2, 0.05, 0.3, 0.0, 0.0, 0.0, 0.0 :: real]
     [6, 7, 9, 8, 2, 4, 0, 3, 5, 1]"
    by (auto simp add: sorts_def v)
  show ?thesis
    using s top5_descending_any_sort
      [where a = "[0.1, 0.5, 0.05, 0.2, 0.05, 0.3, 0.0, 0.0, 0.0, 0.0 :: real]"
         and argsort = "\<lambda>a. [6, 7, 9, 8, 2, 4, 0, 3, 5, 1]"
         and feat_names = columns_order]
    by (simp add: top_idx_def columns_order_def)
qed

text \<open>
  C4, as the claim has it, fails on the array of the specification. With ties broken
  by ascending index the five shown would be 1, 5, 3, 0, 2 (index 2 has the weight 0.05
  of index 4, and comes first). A sort of the weights that leaves 2 before 4 and is
  reversed by the script shows index 4 instead, and lists the four zero weights as
  8, 9, 7, 6.
\<close>

theorem top5_ties_ascending_counterexample:
  "sorts [0.1, 0.5, 0.05, 0.2, 0.05, 0.3, 0.0, 0.0, 0.0, 0.0 :: real]
     [6, 7, 9, 8, 2, 4, 0, 3, 5, 1]
   \<and> top_idx (\<lambda>a. [6, 7, 9, 8, 2, 4, 0, 3, 5, 1])
       [0.1, 0.5, 0.05, 0.2, 0.05, 0.3, 0.0, 0.0, 0.0, 0.0] = [1, 5, 3, 0, 4]
   \<and> rev [6, 7, 9, 8, 2, 4, 0, 3, 5, 1 :: nat] = [1, 5, 3, 0, 4, 2, 8, 9, 7, 6]
   \<and> \<not> top_k (ranks_before (\<lambda>i j. i < j) [0.1, 0.5, 0.05, 0.2, 0.05, 0.3, 0.0, 0.0, 0.0, 0.0 :: real])
       5 10
       (top_idx (\<lambda>a. [6, 7, 9, 8, 2, 4, 0, 3, 5, 1])
          [0.1, 0.5, 0.05, 0.2, 0.05, 0.3, 0.0, 0.0, 0.0, 0.0])
   \<and> top_k (ranks_before (\<lambda>i j. i < j) [0.1, 0.5, 0.05, 0.2, 0.05, 0.3, 0.0, 0.0, 0.0, 0.0 :: real])
       5 10 [1, 5, 3, 0, 2]"
proof -
  have u: "[0..<10] = [0, 1, 2, 3, 4, 5, 6, 7, 8, 9 :: nat]"
    by (simp add: upt_rec)
  have v: "{0..<10} = {0, 1, 2, 3, 4, 5, 6, 7, 8, 9 :: nat}"
    by (auto simp: atLeastLessThan_def)
  have s: "sorts [0.1, 0.5, 0.05, 0.2, 0.05, 0.3, 0.0, 0.0, 0.0, 0.0 :: real]
     [6, 7, 9, 8, 2, 4, 0, 3, 5, 1]"
    by (auto simp add: sorts_def v)
  have t: "top_idx (\<lambda>a. [6, 7, 9, 8, 2, 4, 0, 3, 5, 1])
       [0.1, 0.5, 0.05, 0.2, 0.05, 0.3, 0.0, 0.0, 0.0, 0.0 :: real] = [1, 5, 3, 0, 4]"
    by (simp add: top_idx_def)
  show ?thesis
    unfolding t using s by (simp add: top_k_def ranks_before_def u)
qed


section \<open>One run: failures and the check box\<close>

lemma model_predict_Model:
  "model_predict m df = Inr ys \<Longrightarrow> \<exists>m'. m = Model m'"
  by (cases m) simp_all

lemma scaler_transform_Scaler:
  "scaler_transform s df = Inr X \<Longrightarrow> \<exists>s'. s = Scaler s'"
  by (cases s) simp_all

lemma predicted_price_Inr:
  assumes "predicted_price m s df = Inr p"
  shows "\<exists>X ys. scaler_transform s df = Inr X \<and> length X = length columns_order \<and>
     model_predict m (zip columns_order X) = Inr (p # ys)"
  using assms
  by (auto simp: predicted_price_def scaled_frame_def first_def
      split: sum.splits if_splits list.splits)

lemma script_Inr:
  assumes "script lib (m, s) chk ss = Inr (ss', pg)"
  shows "\<exists>f. sidebar ss = Inr (ss', f) \<and>
     input_df f = Inr (features pg) \<and> predicted_price m s (features pg) = Inr (price pg) \<and>
     importance_chart (np_argsort lib) chk m (map fst (features pg)) = Inr (chart pg) \<and>
     map_location pg = (latitude f, longitude f) \<and> marker pg = (latitude f, longitude f)"
  using assms by (auto simp: script_def split: sum.splits prod.splits)

lemma script_stages:
  assumes "sidebar ss = Inr (ss', f)"
    and "input_df f = Inr df" and "predicted_price m s df = Inr p"
  shows "script lib (m, s) chk ss =
     (case importance_chart (np_argsort lib) chk m (map fst df) of
        Inl e \<Rightarrow> Inl e
      | Inr ch \<Rightarrow> Inr (ss', \<lparr>features = df, price = p, chart = ch,
                          map_location = (latitude f, longitude f),
                          marker = (latitude f, longitude f)\<rparr>))"
  using assms by (simp add: script_def)

lemma fst_render: "fst (render lib cache chk ss) = fst (cached_load_model cache lib)"
  by (simp add: render_def split: prod.splits)

lemma snd_render:
  "snd (render lib cache chk ss) =
     (case snd (cached_load_model cache lib) of
        Inl e \<Rightarrow> Inl e
      | Inr loaded \<Rightarrow> script lib loaded chk ss)"
  by (simp add: render_def split: prod.splits)

lemma snd_render_Inr:
  assumes "snd (render lib cache chk ss) = Inr (ss', pg)"
  shows "\<exists>m s. snd (cached_load_model cache lib) = Inr (m, s) \<and>
     script lib (m, s) chk ss = Inr (ss', pg)"
  using assms unfolding snd_render by (auto split: sum.splits)

lemma render_price_failure:
  assumes "snd (cached_load_model cache lib) = Inr (m, s)" and "sidebar ss = Inr (ss', f)"
    and "input_df f = Inr df" and "predicted_price m s df = Inl e"
  shows "snd (render lib cache chk ss) = Inl e"
  by (simp add: snd_render script_def assms)

lemma cached_load_model_source:
  assumes "snd (cached_load_model cache lib) = Inr (m, s)"
  shows "cache = Some (m, s) \<or>
     (cache = None \<and> joblib_load lib ''lightgbm_airbnb_model.pkl'' = Inr m \<and>
      joblib_load lib ''feature_scaler.pkl'' = Inr s)"
  using assms
  by (auto simp: cached_load_model_def load_model_def split: option.splits sum.splits)

text \<open>
  C8, as the script has it. On a run with nothing cached, an error of \<open>joblib.load\<close> for
  the model or for the scaler (a missing or malformed artifact) ends the run with that
  error, and nothing is cached. On every run, an error of the scaler's transform or of
  the model's predict, a scaled row that has not one value per feature name, or an
  empty prediction ends the run with that error. No default price is ever produced: a
  run that shows a price has a model and a scaler, from the cache or, with nothing
  cached, from the two files, and the price is the first prediction of that model on the
  row scaled by that scaler. (The order of the features is not checked, and a cached
  pair is used without reading the files.)
\<close>

theorem failures_propagate:
  "(joblib_load lib ''lightgbm_airbnb_model.pkl'' = Inl e \<longrightarrow>
        render lib None chk ss = (None, Inl e))
   \<and> (joblib_load lib ''lightgbm_airbnb_model.pkl'' = Inr m0 \<and>
      joblib_load lib ''feature_scaler.pkl'' = Inl e \<longrightarrow>
        render lib None chk ss = (None, Inl e))
   \<and> (snd (cached_load_model cache lib) = Inr (m, s) \<and> sidebar ss = Inr (ss', f) \<and>
      input_df f = Inr df \<longrightarrow>
        (scaler_transform s df = Inl e \<longrightarrow> snd (render lib cache chk ss) = Inl e)
      \<and> (scaler_transform s df = Inr X \<and> length X \<noteq> length columns_order \<longrightarrow>
           snd (render lib cache chk ss) = Inl ValueError)
      \<and> (scaler_transform s df = Inr X \<and> length X = length columns_order \<and>
         model_predict m (zip columns_order X) = Inl e \<longrightarrow>
           snd (render lib cache chk ss) = Inl e)
      \<and> (scaler_transform s df = Inr X \<and> length X = length columns_order \<and>
         model_predict m (zip columns_order X) = Inr [] \<longrightarrow>
           snd (render lib cache chk ss) = Inl IndexError))
   \<and> (snd (render lib cache chk ss) = Inr (ss', pg) \<longrightarrow>
        (\<exists>m' s' X ys.
           (cache = Some (Model m', Scaler s') \<or>
            (cache = None \<and> joblib_load lib ''lightgbm_airbnb_model.pkl'' = Inr (Model m') \<and>
             joblib_load lib ''feature_scaler.pkl'' = Inr (Scaler s'))) \<and>
           transform s' (features pg) = Inr X \<and> length X = length columns_order \<and>
           predict m' (zip columns_order X) = Inr (price pg # ys)))"
proof (intro conjI impI)
  assume r: "snd (render lib cache chk ss) = Inr (ss', pg)"
  from snd_render_Inr [OF r] obtain m s where
    l: "snd (cached_load_model cache lib) = Inr (m, s)"
    and sc: "script lib (m, s) chk ss = Inr (ss', pg)"
    by blast
  from script_Inr [OF sc] have a: "predicted_price m s (features pg) = Inr (price pg)"
    by blast
  from predicted_price_Inr [OF a] obtain X ys where
    b: "scaler_transform s (features pg) = Inr X" "length X = length columns_order"
      "model_predict m (zip columns_order X) = Inr (price pg # ys)" by blast
  from model_predict_Model [OF b(3)] obtain m' where m': "m = Model m'" by blast
  from scaler_transform_Scaler [OF b(1)] obtain s' where s': "s = Scaler s'" by blast
  from cached_load_model_source [OF l] b m' s'
  show "\<exists>m' s' X ys.
           (cache = Some (Model m', Scaler s') \<or>
            (cache = None \<and> joblib_load lib ''lightgbm_airbnb_model.pkl'' = Inr (Model m') \<and>
             joblib_load lib ''feature_scaler.pkl'' = Inr (Scaler s'))) \<and>
           transform s' (features pg) = Inr X \<and> length X = length columns_order \<and>
           predict m' (zip columns_order X) = Inr (price pg # ys)"
    by auto
next
  assume "joblib_load lib ''lightgbm_airbnb_model.pkl'' = Inl e"
  then show "render lib None chk ss = (None, Inl e)"
    by (simp add: render_def cached_load_model_def load_model_def)
next
  assume "joblib_load lib ''lightgbm_airbnb_model.pkl'' = Inr m0 \<and>
      joblib_load lib ''feature_scaler.pkl'' = Inl e"
  then show "render lib None chk ss = (None, Inl e)"
    by (simp add: render_def cached_load_model_def load_model_def)
next
  assume a: "snd (cached_load_model cache lib) = Inr (m, s) \<and> sidebar ss = Inr (ss', f) \<and>
      input_df f = Inr df"
  {
    assume "scaler_transform s df = Inl e"
    then have "predicted_price m s df = Inl e"
      by (simp add: predicted_price_def)
    with a show "snd (render lib cache chk ss) = Inl e"
      by (simp add: render_price_failure)
  next
    assume "scaler_transform s df = Inr X \<and> length X \<noteq> length columns_order"
    then have "predicted_price m s df = Inl ValueError"
      by (simp add: predicted_price_def scaled_frame_def)
    with a show "snd (render lib cache chk ss) = Inl ValueError"
      by (simp add: render_price_failure)
  next
    assume "scaler_transform s df = Inr X \<and> length X = length columns_order \<and>
         model_predict m (zip columns_order X) = Inl e"
    then have "predicted_price m s df = Inl e"
      by (simp add: predicted_price_def scaled_frame_def)
    with a show "snd (render lib cache chk ss) = Inl e"
      by (simp add: render_price_failure)
  next
    assume "scaler_transform s df = Inr X \<and> length X = length columns_order \<and>
         model_predict m (zip columns_order X) = Inr []"
    then have "predicted_price m s df = Inl IndexError"
      by (simp add: predicted_price_def scaled_frame_def first_def)
    with a show "snd (render lib cache chk ss) = Inl IndexError"
      by (simp add: render_price_failure)
  }
qed

text \<open>Three runs in a fresh session with nothing cached: no model file; a scaler file
  that holds some other object; a scaler that returns nine values for the ten
  features.\<close>

theorem failures_propagate_witness:
  "render \<lparr>joblib_load = (\<lambda>path. Inl (LibraryError ''FileNotFoundError'')),
           np_argsort = (\<lambda>a. [])\<rparr> None False fresh =
     (None, Inl (LibraryError ''FileNotFoundError''))
   \<and> snd (render
        \<lparr>joblib_load = (\<lambda>path. if path = ''lightgbm_airbnb_model.pkl''
            then Inr (Model \<lparr>predict = (\<lambda>df. Inr [100]), feature_importances = []\<rparr>)
            else Inr Other_object),
         np_argsort = (\<lambda>a. [])\<rparr> None False fresh) = Inl AttributeError
   \<and> snd (render
        \<lparr>joblib_load = (\<lambda>path. if path = ''lightgbm_airbnb_model.pkl''
            then Inr (Model \<lparr>predict = (\<lambda>df. Inr [100]), feature_importances = []\<rparr>)
            else Inr (Scaler \<lparr>transform = (\<lambda>df. Inr (replicate 9 0))\<rparr>)),
         np_argsort = (\<lambda>a. [])\<rparr> None False fresh) = Inl ValueError"
proof (intro conjI)
  let ?l1 = "\<lparr>joblib_load = (\<lambda>path. Inl (LibraryError ''FileNotFoundError'')),
           np_argsort = (\<lambda>a. [])\<rparr>"
  show "render ?l1 None False fresh = (None, Inl (LibraryError ''FileNotFoundError''))"
    using failures_propagate [where lib = ?l1 and chk = False and ss = fresh
        and e = "LibraryError ''FileNotFoundError''"]
    by simp
  let ?m = "Model \<lparr>predict = (\<lambda>df. Inr [100]), feature_importances = []\<rparr>"
  have sb: "\<exists>ss' f df. sidebar fresh = Inr (ss', f) \<and> input_df f = Inr df"
    by (simp add: sidebar_def coordinates_def selectbox_def auto_update_def needs_update_def
        getitem_def session_get_def widget_value_def fresh_def keys_def city_coords_def
        input_df_def input_dict_def room_type_map_def city_map_def enumerate_eq_zip)
  then obtain ss' f df where sb': "sidebar fresh = Inr (ss', f)" "input_df f = Inr df"
    by blast
  let ?l2 = "\<lparr>joblib_load = (\<lambda>path. if path = ''lightgbm_airbnb_model.pkl''
            then Inr ?m else Inr Other_object), np_argsort = (\<lambda>a. [])\<rparr>"
  have c2: "snd (cached_load_model None ?l2) = Inr (?m, Other_object)"
    by (simp add: cached_load_model_def load_model_def)
  show "snd (render ?l2 None False fresh) = Inl AttributeError"
    using failures_propagate [where lib = ?l2 and cache = None and chk = False and ss = fresh
        and m = ?m and s = Other_object and ss' = ss' and f = f and df = df
        and e = AttributeError]
      c2 sb'
    by simp
  let ?s3 = "Scaler \<lparr>transform = (\<lambda>df. Inr (replicate 9 0))\<rparr>"
  let ?l3 = "\<lparr>joblib_load = (\<lambda>path. if path = ''lightgbm_airbnb_model.pkl''
            then Inr ?m else Inr ?s3), np_argsort = (\<lambda>a. [])\<rparr>"
  have c3: "snd (cached_load_model None ?l3) = Inr (?m, ?s3)"
    by (simp add: cached_load_model_def load_model_def)
  show "snd (render ?l3 None False fresh) = Inl ValueError"
    using failures_propagate [where lib = ?l3 and cache = None and chk = False and ss = fresh
        and m = ?m and s = ?s3 and ss' = ss' and f = f and df = df
        and X = "replicate 9 0"]
      c3 sb'
    by (simp add: columns_order_def)
qed

text \<open>
  C8, as the claim has it, fails in two ways. First, a scaler and a model fitted on the
  ten columns in the reverse order (city first, latitude last) and used by position:
  the scaler passes the values through, the model returns its first feature, for it the
  city code. On a row in their order, the reverse of the script's row, the price is 0,
  the code of Paris; the script hands them its own row, and the run ends without an
  error and shows the latitude 48.8566 as the price. Second, that run has cached the
  pair: the next run, with both files gone, shows the price again.
\<close>

theorem unchecked_order_and_cached_load_counterexample:
  "(\<exists>ss' pg.
      render
        \<lparr>joblib_load = (\<lambda>path. if path = ''lightgbm_airbnb_model.pkl''
            then Inr (Model \<lparr>predict = (\<lambda>df. case df of [] \<Rightarrow> Inl ValueError
                                                 | x # _ \<Rightarrow> Inr [snd x]),
                              feature_importances = []\<rparr>)
            else Inr (Scaler \<lparr>transform = (\<lambda>df. Inr (map (\<lambda>x. case snd x of
                        PyInt i \<Rightarrow> of_int i | PyFloat r \<Rightarrow> r | NaN \<Rightarrow> 0) df))\<rparr>)),
         np_argsort = (\<lambda>a. [])\<rparr> None False fresh =
        (Some (Model \<lparr>predict = (\<lambda>df. case df of [] \<Rightarrow> Inl ValueError
                                            | x # _ \<Rightarrow> Inr [snd x]),
                      feature_importances = []\<rparr>,
               Scaler \<lparr>transform = (\<lambda>df. Inr (map (\<lambda>x. case snd x of
                        PyInt i \<Rightarrow> of_int i | PyFloat r \<Rightarrow> r | NaN \<Rightarrow> 0) df))\<rparr>),
         Inr (ss', pg)) \<and>
      price pg = 48.8566 \<and>
      predicted_price
        (Model \<lparr>predict = (\<lambda>df. case df of [] \<Rightarrow> Inl ValueError | x # _ \<Rightarrow> Inr [snd x]),
                feature_importances = []\<rparr>)
        (Scaler \<lparr>transform = (\<lambda>df. Inr (map (\<lambda>x. case snd x of
                        PyInt i \<Rightarrow> of_int i | PyFloat r \<Rightarrow> r | NaN \<Rightarrow> 0) df))\<rparr>)
        (rev (features pg)) = Inr 0)
   \<and> (\<exists>ss' pg.
      snd (render
        \<lparr>joblib_load = (\<lambda>path. Inl (LibraryError ''FileNotFoundError'')),
         np_argsort = (\<lambda>a. [])\<rparr>
        (Some (Model \<lparr>predict = (\<lambda>df. case df of [] \<Rightarrow> Inl ValueError
                                            | x # _ \<Rightarrow> Inr [snd x]),
                      feature_importances = []\<rparr>,
               Scaler \<lparr>transform = (\<lambda>df. Inr (map (\<lambda>x. case snd x of
                        PyInt i \<Rightarrow> of_int i | PyFloat r \<Rightarrow> r | NaN \<Rightarrow> 0) df))\<rparr>))
        False fresh) = Inr (ss', pg) \<and>
      price pg = 48.8566)"
  by (simp add: render_def cached_load_model_def load_model_def script_def sidebar_def
      coordinates_def selectbox_def auto_update_def needs_update_def getitem_def
      session_get_def widget_value_def fresh_def keys_def city_coords_def input_df_def
      input_dict_def room_type_map_def city_map_def enumerate_eq_zip DataFrame_def
      columns_order_def predicted_price_def scaled_frame_def first_def importance_chart_def)

subsection \<open>The check box\<close>

lemma importance_chart_off: "importance_chart argsort False m names = Inr None"
  by (simp add: importance_chart_def)

lemma importance_chart_on:
  "importance_chart argsort True (Model m) names =
     (case fi_df argsort names (feature_importances m) of
        Inl e \<Rightarrow> Inl e
      | Inr ch \<Rightarrow> Inr (Some ch))"
  by (simp add: importance_chart_def)

lemma input_df_columns: "input_df f = Inr df \<Longrightarrow> map fst df = columns_order"
  by (auto simp: input_df_def DataFrame_def comp_def split: sum.splits)

lemma page_chart_update:
  "pg\<lparr>chart := ch\<rparr> =
     \<lparr>features = features pg, price = price pg, chart = ch,
      map_location = map_location pg, marker = marker pg\<rparr>"
  by (cases pg) simp

lemma script_off_of_on:
  assumes "script lib (m, s) True ss = Inr (ss', pg)"
  shows "script lib (m, s) False ss = Inr (ss', pg\<lparr>chart := None\<rparr>)"
proof -
  from script_Inr [OF assms] obtain f where
    a: "sidebar ss = Inr (ss', f)"
      "input_df f = Inr (features pg)" "predicted_price m s (features pg) = Inr (price pg)"
      "map_location pg = (latitude f, longitude f)" "marker pg = (latitude f, longitude f)"
    by blast
  show ?thesis
    unfolding script_stages [OF a(1-3)] importance_chart_off page_chart_update
    using a(4,5) by simp
qed

lemma script_on_of_off:
  assumes "script lib (m, s) False ss = Inr (ss', pg)"
  shows "\<exists>m'. m = Model m' \<and>
     script lib (m, s) True ss =
       (case fi_df (np_argsort lib) columns_order (feature_importances m') of
          Inl e \<Rightarrow> Inl e
        | Inr ch \<Rightarrow> Inr (ss', pg\<lparr>chart := Some ch\<rparr>))"
proof -
  from script_Inr [OF assms] obtain f where
    a: "sidebar ss = Inr (ss', f)"
      "input_df f = Inr (features pg)" "predicted_price m s (features pg) = Inr (price pg)"
      "map_location pg = (latitude f, longitude f)" "marker pg = (latitude f, longitude f)"
    by blast
  from predicted_price_Inr [OF a(3)] model_predict_Model obtain m' where m': "m = Model m'"
    by blast
  have "script lib (Model m', s) True ss =
       (case fi_df (np_argsort lib) columns_order (feature_importances m') of
          Inl e \<Rightarrow> Inl e
        | Inr ch \<Rightarrow> Inr (ss', pg\<lparr>chart := Some ch\<rparr>))"
    unfolding script_stages [OF a(1-3) [unfolded m']] importance_chart_on
      input_df_columns [OF a(2)] page_chart_update
    using a(4,5) by (simp split: sum.splits)
  with m' show ?thesis by auto
qed

text \<open>
  C10. The check box changes neither the cache, nor the session state, nor the feature
  row, nor the price of a run: a run with the box checked that completes is, with the
  box unchecked, the same run without the chart; a run with the box unchecked that
  completes is, with the box checked, the same run with a chart, or ends with the
  IndexError of the chart after the price has been computed, and when the model has one
  importance weight per feature and \<open>np.argsort\<close> returns a permutation that sorts
  them it is the same run with a chart. In both the session state is the one the
  sidebar left and the feature row is a function of the form alone.
\<close>

theorem toggle_does_not_interfere:
  "fst (render lib cache True ss) = fst (render lib cache False ss)
   \<and> (snd (render lib cache True ss) = Inr (ss', pg) \<longrightarrow>
        snd (render lib cache False ss) = Inr (ss', pg\<lparr>chart := None\<rparr>))
   \<and> (snd (render lib cache False ss) = Inr (ss', pg) \<longrightarrow>
        (\<exists>ch. snd (render lib cache True ss) = Inr (ss', pg\<lparr>chart := Some ch\<rparr>))
        \<or> snd (render lib cache True ss) = Inl IndexError)
   \<and> (snd (render lib cache False ss) = Inr (ss', pg) \<and>
      snd (cached_load_model cache lib) = Inr (Model m, s) \<and>
      length (feature_importances m) = length columns_order \<and>
      sorts (feature_importances m) (np_argsort lib (feature_importances m)) \<longrightarrow>
        (\<exists>ch. snd (render lib cache True ss) = Inr (ss', pg\<lparr>chart := Some ch\<rparr>)))
   \<and> (snd (render lib cache chk ss) = Inr (ss', pg) \<longrightarrow>
        (\<exists>f. sidebar ss = Inr (ss', f) \<and> input_df f = Inr (features pg)))"
proof (intro conjI impI)
  show "fst (render lib cache True ss) = fst (render lib cache False ss)"
    by (simp add: fst_render)
next
  assume "snd (render lib cache True ss) = Inr (ss', pg)"
  from snd_render_Inr [OF this] obtain m s where
    l: "snd (cached_load_model cache lib) = Inr (m, s)"
    and sc: "script lib (m, s) True ss = Inr (ss', pg)" by blast
  from script_off_of_on [OF sc]
  show "snd (render lib cache False ss) = Inr (ss', pg\<lparr>chart := None\<rparr>)"
    unfolding snd_render l by simp
next
  assume "snd (render lib cache False ss) = Inr (ss', pg)"
  from snd_render_Inr [OF this] obtain m0 s0 where
    l: "snd (cached_load_model cache lib) = Inr (m0, s0)"
    and sc: "script lib (m0, s0) False ss = Inr (ss', pg)" by blast
  from script_on_of_off [OF sc] obtain m' where
    "m0 = Model m' \<and>
     script lib (m0, s0) True ss =
       (case fi_df (np_argsort lib) columns_order (feature_importances m') of
          Inl e \<Rightarrow> Inl e
        | Inr ch \<Rightarrow> Inr (ss', pg\<lparr>chart := Some ch\<rparr>))" ..
  then have t: "script lib (m0, s0) True ss =
       (case fi_df (np_argsort lib) columns_order (feature_importances m') of
          Inl e \<Rightarrow> Inl e
        | Inr ch \<Rightarrow> Inr (ss', pg\<lparr>chart := Some ch\<rparr>))"
    by (rule conjunct2)
  have u: "snd (render lib cache True ss) = script lib (m0, s0) True ss"
    unfolding snd_render l by simp
  from u t have r: "snd (render lib cache True ss) =
       (case fi_df (np_argsort lib) columns_order (feature_importances m') of
          Inl e \<Rightarrow> Inl e
        | Inr ch \<Rightarrow> Inr (ss', pg\<lparr>chart := Some ch\<rparr>))"
    by (rule trans)
  show "(\<exists>ch. snd (render lib cache True ss) = Inr (ss', pg\<lparr>chart := Some ch\<rparr>))
        \<or> snd (render lib cache True ss) = Inl IndexError"
  proof (cases "fi_df (np_argsort lib) columns_order (feature_importances m')")
    case (Inl e)
    with fi_df_error [OF Inl] r show ?thesis by simp
  next
    case (Inr ch)
    with r have "snd (render lib cache True ss) = Inr (ss', pg\<lparr>chart := Some ch\<rparr>)"
      by simp
    then show ?thesis by blast
  qed
next
  assume a: "snd (render lib cache False ss) = Inr (ss', pg) \<and>
      snd (cached_load_model cache lib) = Inr (Model m, s) \<and>
      length (feature_importances m) = length columns_order \<and>
      sorts (feature_importances m) (np_argsort lib (feature_importances m))"
  then have r0: "snd (render lib cache False ss) = Inr (ss', pg)"
    and l: "snd (cached_load_model cache lib) = Inr (Model m, s)"
    by blast+
  have sc: "script lib (Model m, s) False ss = Inr (ss', pg)"
    using r0 unfolding snd_render l by simp
  from script_on_of_off [OF sc] have
    "script lib (Model m, s) True ss =
       (case fi_df (np_argsort lib) columns_order (feature_importances m) of
          Inl e \<Rightarrow> Inl e
        | Inr ch \<Rightarrow> Inr (ss', pg\<lparr>chart := Some ch\<rparr>))" by auto
  then have t: "script lib (Model m, s) True ss =
       (case fi_df (np_argsort lib) columns_order (feature_importances m) of
          Inl e \<Rightarrow> Inl e
        | Inr ch \<Rightarrow> Inr (ss', pg\<lparr>chart := Some ch\<rparr>))" .
  have u: "snd (render lib cache True ss) = script lib (Model m, s) True ss"
    unfolding snd_render l by simp
  from u t have r: "snd (render lib cache True ss) =
       (case fi_df (np_argsort lib) columns_order (feature_importances m) of
          Inl e \<Rightarrow> Inl e
        | Inr ch \<Rightarrow> Inr (ss', pg\<lparr>chart := Some ch\<rparr>))"
    by (rule trans)
  from a fi_df_aligned [of "feature_importances m" "np_argsort lib" columns_order]
  have "fi_df (np_argsort lib) columns_order (feature_importances m) =
      Inr (map (\<lambda>i. (columns_order ! i, feature_importances m ! i))
             (top_idx (np_argsort lib) (feature_importances m)))" by simp
  with r have "snd (render lib cache True ss) =
      Inr (ss', pg\<lparr>chart := Some (map (\<lambda>i. (columns_order ! i, feature_importances m ! i))
             (top_idx (np_argsort lib) (feature_importances m)))\<rparr>)" by simp
  then show "\<exists>ch. snd (render lib cache True ss) = Inr (ss', pg\<lparr>chart := Some ch\<rparr>)"
    by blast
next
  assume "snd (render lib cache chk ss) = Inr (ss', pg)"
  from snd_render_Inr [OF this] obtain m s where
    sc: "script lib (m, s) chk ss = Inr (ss', pg)" by blast
  from script_Inr [OF sc]
  show "\<exists>f. sidebar ss = Inr (ss', f) \<and> input_df f = Inr (features pg)" by blast
qed

text \<open>A fresh session with nothing cached, a model that predicts 100 and has ten
  importance weights, a scaler that returns ten zeros, and a sort that returns
  6, 7, 9, 8, 2, 4, 0, 3, 5, 1 for these weights.\<close>

theorem toggle_does_not_interfere_witness:
  "\<exists>ss' pg ch.
     snd (render
       \<lparr>joblib_load = (\<lambda>path. if path = ''lightgbm_airbnb_model.pkl''
           then Inr (Model \<lparr>predict = (\<lambda>df. Inr [100]),
                      feature_importances = [0.1, 0.5, 0.05, 0.2, 0.05, 0.3, 0, 0, 0, 0]\<rparr>)
           else Inr (Scaler \<lparr>transform = (\<lambda>df. Inr (replicate 10 0))\<rparr>)),
        np_argsort = (\<lambda>a. [6, 7, 9, 8, 2, 4, 0, 3, 5, 1])\<rparr> None False fresh) =
       Inr (ss', pg) \<and>
     price pg = 100 \<and> chart pg = None \<and> last_city ss' = Some ''Paris'' \<and>
     snd (render
       \<lparr>joblib_load = (\<lambda>path. if path = ''lightgbm_airbnb_model.pkl''
           then Inr (Model \<lparr>predict = (\<lambda>df. Inr [100]),
                      feature_importances = [0.1, 0.5, 0.05, 0.2, 0.05, 0.3, 0, 0, 0, 0]\<rparr>)
           else Inr (Scaler \<lparr>transform = (\<lambda>df. Inr (replicate 10 0))\<rparr>)),
        np_argsort = (\<lambda>a. [6, 7, 9, 8, 2, 4, 0, 3, 5, 1])\<rparr> None True fresh) =
       Inr (ss', pg\<lparr>chart := Some ch\<rparr>)"
proof -
  let ?m = "\<lparr>predict = (\<lambda>df. Inr [100]),
             feature_importances = [0.1, 0.5, 0.05, 0.2, 0.05, 0.3, 0, 0, 0, 0]\<rparr>"
  let ?s = "Scaler \<lparr>transform = (\<lambda>df. Inr (replicate 10 0))\<rparr>"
  let ?lib = "\<lparr>joblib_load = (\<lambda>path. if path = ''lightgbm_airbnb_model.pkl''
           then Inr (Model ?m) else Inr ?s),
        np_argsort = (\<lambda>a. [6, 7, 9, 8, 2, 4, 0, 3, 5, 1])\<rparr>"
  have "\<exists>ss' pg. snd (render ?lib None False fresh) = Inr (ss', pg) \<and> price pg = 100 \<and>
      chart pg = None \<and> last_city ss' = Some ''Paris''"
    by (simp add: render_def cached_load_model_def load_model_def script_def sidebar_def
        coordinates_def selectbox_def
        auto_update_def needs_update_def getitem_def session_get_def widget_value_def
        fresh_def keys_def city_coords_def input_df_def input_dict_def room_type_map_def
        city_map_def enumerate_eq_zip DataFrame_def columns_order_def predicted_price_def
        scaled_frame_def first_def importance_chart_def)
  then obtain ss' pg where r: "snd (render ?lib None False fresh) = Inr (ss', pg)"
    and p: "price pg = 100" "chart pg = None" "last_city ss' = Some ''Paris''"
    by blast
  have c: "snd (cached_load_model None ?lib) = Inr (Model ?m, ?s)"
    by (simp add: cached_load_model_def load_model_def)
  have v: "{0..<10} = {0, 1, 2, 3, 4, 5, 6, 7, 8, 9 :: nat}"
    by (auto simp: atLeastLessThan_def)
  have srt: "sorts (feature_importances ?m) (np_argsort ?lib (feature_importances ?m))"
    by (auto simp add: sorts_def v)
  have len: "length (feature_importances ?m) = length columns_order"
    by (simp add: columns_order_def)
  from toggle_does_not_interfere [where lib = ?lib and cache = None and ss = fresh
      and ss' = ss' and pg = pg and m = ?m and s = ?s] r c srt len
  have "\<exists>ch. snd (render ?lib None True fresh) = Inr (ss', pg\<lparr>chart := Some ch\<rparr>)"
    by blast
  with r p show ?thesis by blast
qed

end
